theory Spec2Isabelle
  imports Main
begin

section \<open>Data model\<close>

text \<open>
  The host framework's string attribute value \<^verbatim>\<open>types.String\<close>. The framework hands a
  resource only three shapes of it: unknown, null (both with the zero \<^verbatim>\<open>Value\<close>, the empty
  string) and a known string; the resource itself only builds \<^verbatim>\<open>types.String{Value: v}\<close>,
  which is the known shape.
\<close>

datatype types_String = Unknown | Null | Known string

fun Value :: "types_String \<Rightarrow> string" where
  "Value Unknown = []"
| "Value Null = []"
| "Value (Known v) = v"

fun IsNull :: "types_String \<Rightarrow> bool" where
  "IsNull Null = True"
| "IsNull Unknown = False"
| "IsNull (Known v) = False"

fun IsUnknown :: "types_String \<Rightarrow> bool" where
  "IsUnknown Unknown = True"
| "IsUnknown Null = False"
| "IsUnknown (Known v) = False"

text \<open>\<^verbatim>\<open>TeamLabelResourceModel\<close>: the five attributes of the resource.\<close>

record TeamLabelResourceModel =
  Id' :: types_String
  Name :: types_String
  Description :: types_String
  Color :: types_String
  TeamId :: types_String

text \<open>
  The types of the generated GraphQL client, as the resource uses them: a pointer is an
  \<open>option\<close> (\<open>None\<close> is \<^verbatim>\<open>nil\<close>). \<open>IssueLabel\<close> is the label that the create, get and
  update responses carry (\<^verbatim>\<open>response.IssueLabelCreate.IssueLabel\<close>, \<^verbatim>\<open>response.IssueLabel\<close>,
  \<^verbatim>\<open>response.IssueLabelUpdate.IssueLabel\<close>); its \<^verbatim>\<open>Team\<close> is a pointer to a struct holding
  the team's \<^verbatim>\<open>Id\<close>.
\<close>

record IssueLabelCreateInput =
  create_Name :: string
  create_TeamId :: "string option"
  create_Description :: "string option"
  create_Color :: "string option"

record IssueLabelUpdateInput =
  update_Name :: string
  update_Description :: "string option"
  update_Color :: "string option"

datatype Team = Team (team_Id: string)

record IssueLabel =
  label_Id :: string
  label_Name :: string
  label_Description :: "string option"
  label_Color :: "string option"
  label_Team :: "Team option"

subsection \<open>Diagnostics\<close>

datatype diagnostic =
    ErrorDiagnostic (Summary: string) (Detail: string)
  | WarningDiagnostic (Summary: string) (Detail: string)

definition HasError :: "diagnostic list \<Rightarrow> bool" where
  "HasError ds = list_ex is_ErrorDiagnostic ds"

text \<open>
  \<^verbatim>\<open>Diagnostics.Append\<close> of the host framework adds each diagnostic that the list does not
  hold yet; \<^verbatim>\<open>AddError\<close> appends one error diagnostic in that way.
\<close>

fun Append :: "diagnostic list \<Rightarrow> diagnostic list \<Rightarrow> diagnostic list" where
  "Append ds [] = ds"
| "Append ds (d # rest) = Append (if d \<in> set ds then ds else ds @ [d]) rest"

definition AddError :: "diagnostic list \<Rightarrow> string \<Rightarrow> string \<Rightarrow> diagnostic list" where
  "AddError ds summary detail = Append ds [ErrorDiagnostic summary detail]"

subsection \<open>Requests, responses and the state container\<close>

text \<open>
  A plan or a prior state that the host passes in a request is the object of the five
  attributes; \<^verbatim>\<open>Get\<close> converts it into the model and reports the diagnostics of the
  conversion, none for an object of the resource's own schema. The state of a response
  is \<open>None\<close> while it is null and \<open>Some\<close> of the object once \<^verbatim>\<open>State.Set\<close> has written it.
\<close>

definition Get :: "TeamLabelResourceModel \<Rightarrow> diagnostic list \<times> TeamLabelResourceModel" where
  "Get raw = ([], raw)"

record CreateRequest =
  create_Plan :: TeamLabelResourceModel

record ReadRequest =
  read_State :: TeamLabelResourceModel

record UpdateRequest =
  update_Plan :: TeamLabelResourceModel
  update_State :: TeamLabelResourceModel

record DeleteRequest =
  delete_State :: TeamLabelResourceModel

record ImportStateRequest =
  ID :: string

record Response =
  State :: "TeamLabelResourceModel option"
  Diagnostics :: "diagnostic list"

definition State_Set :: "TeamLabelResourceModel option \<Rightarrow> TeamLabelResourceModel
    \<Rightarrow> diagnostic list \<times> TeamLabelResourceModel option" where
  "State_Set st data = ([], Some data)"

text \<open>
  \<^verbatim>\<open>State.SetAttribute(ctx, path.Root("id"), v)\<close>: writes the one attribute; on a null state
  the framework first creates the object with every attribute null.
\<close>

definition null_object :: TeamLabelResourceModel where
  "null_object = \<lparr>Id' = Null, Name = Null, Description = Null, Color = Null, TeamId = Null\<rparr>"

definition SetAttribute_id :: "TeamLabelResourceModel option \<Rightarrow> string
    \<Rightarrow> diagnostic list \<times> TeamLabelResourceModel option" where
  "SetAttribute_id st v =
     ([], Some ((case st of None \<Rightarrow> null_object | Some obj \<Rightarrow> obj)\<lparr>Id' := Known v\<rparr>))"

subsection \<open>The remote API\<close>

text \<open>
  The five generated operations are parameters: each takes the server's state \<open>'w\<close> and
  returns either the error's text or its response, with the server's new state. Every
  invocation is recorded in \<open>calls\<close>, so that the number of remote calls of an operation
  can be stated.
\<close>

datatype remote_call =
    Call_createLabel IssueLabelCreateInput
  | Call_getLabel string
  | Call_updateLabel IssueLabelUpdateInput string
  | Call_deleteLabel string
  | Call_findTeamLabel string string

record 'w client =
  createLabel :: "IssueLabelCreateInput \<Rightarrow> 'w \<Rightarrow> (string + IssueLabel) \<times> 'w"
  getLabel :: "string \<Rightarrow> 'w \<Rightarrow> (string + IssueLabel) \<times> 'w"
  updateLabel :: "IssueLabelUpdateInput \<Rightarrow> string \<Rightarrow> 'w \<Rightarrow> (string + IssueLabel) \<times> 'w"
  deleteLabel :: "string \<Rightarrow> 'w \<Rightarrow> (string + unit) \<times> 'w"
  findTeamLabel :: "string \<Rightarrow> string \<Rightarrow> 'w \<Rightarrow> (string + string list) \<times> 'w"

record 'w remote =
  server :: 'w
  calls :: "remote_call list"

definition invoke :: "remote_call \<Rightarrow> ('w \<Rightarrow> 'a \<times> 'w) \<Rightarrow> 'w remote \<Rightarrow> 'a \<times> 'w remote" where
  "invoke call f rm =
     (let (result, w) = f (server rm)
      in (result, \<lparr>server = w, calls = calls rm @ [call]\<rparr>))"

section \<open>The operations of the resource\<close>

text \<open>
  Each operation takes the client, the request, the response as the host prepared it and
  the remote side, and returns the response and the remote side as the operation leaves
  them. The context and the trace messages of the log have no part in either and are
  left out. The host calls \<open>Create\<close> and \<open>Update\<close> with a plan and \<open>Read\<close> and \<open>Delete\<close>
  with a prior state that are not null, and with a configured client.
\<close>

definition Create :: "'w client \<Rightarrow> CreateRequest \<Rightarrow> Response \<Rightarrow> 'w remote
    \<Rightarrow> Response \<times> 'w remote" where
  "Create c req resp rm =
     (let (diags, data) = Get (create_Plan req);
          resp = resp\<lparr>Diagnostics := Append (Diagnostics resp) diags\<rparr>
      in if HasError (Diagnostics resp) then (resp, rm)
         else
           let input = \<lparr>create_Name = Value (Name data),
                        create_TeamId = Some (Value (TeamId data)),
                        create_Description = None,
                        create_Color = None\<rparr>;
               input = (if \<not> IsNull (Description data)
                        then input\<lparr>create_Description := Some (Value (Description data))\<rparr>
                        else input);
               input = (if \<not> IsUnknown (Color data)
                        then input\<lparr>create_Color := Some (Value (Color data))\<rparr>
                        else input);
               (response, rm) = invoke (Call_createLabel input) (createLabel c input) rm
           in case response of
                Inl err \<Rightarrow>
                  (resp\<lparr>Diagnostics := AddError (Diagnostics resp) ''Client Error''
                     (''Unable to create team label, got error: '' @ err)\<rparr>, rm)
              | Inr issueLabel \<Rightarrow>
                  let data = data\<lparr>Id' := Known (label_Id issueLabel)\<rparr>;
                      data = data\<lparr>Name := Known (label_Name issueLabel)\<rparr>;
                      data = (case label_Description issueLabel of
                                Some d \<Rightarrow> data\<lparr>Description := Known d\<rparr>
                              | None \<Rightarrow> data);
                      data = (case label_Color issueLabel of
                                Some col \<Rightarrow> data\<lparr>Color := Known col\<rparr>
                              | None \<Rightarrow> data);
                      data = (case label_Team issueLabel of
                                Some t \<Rightarrow> data\<lparr>TeamId := Known (team_Id t)\<rparr>
                              | None \<Rightarrow> data);
                      (diags, st) = State_Set (State resp) data
                  in (resp\<lparr>State := st,
                           Diagnostics := Append (Diagnostics resp) diags\<rparr>, rm))"

definition Read :: "'w client \<Rightarrow> ReadRequest \<Rightarrow> Response \<Rightarrow> 'w remote
    \<Rightarrow> Response \<times> 'w remote" where
  "Read c req resp rm =
     (let (diags, data) = Get (read_State req);
          resp = resp\<lparr>Diagnostics := Append (Diagnostics resp) diags\<rparr>
      in if HasError (Diagnostics resp) then (resp, rm)
         else
           let (response, rm) =
                 invoke (Call_getLabel (Value (Id' data))) (getLabel c (Value (Id' data))) rm
           in case response of
                Inl err \<Rightarrow>
                  (resp\<lparr>Diagnostics := AddError (Diagnostics resp) ''Client Error''
                     (''Unable to read team label, got error: '' @ err)\<rparr>, rm)
              | Inr issueLabel \<Rightarrow>
                  let data = data\<lparr>Id' := Known (label_Id issueLabel)\<rparr>;
                      data = data\<lparr>Name := Known (label_Name issueLabel)\<rparr>;
                      data = (case label_Description issueLabel of
                                Some d \<Rightarrow> data\<lparr>Description := Known d\<rparr>
                              | None \<Rightarrow> data);
                      data = (case label_Color issueLabel of
                                Some col \<Rightarrow> data\<lparr>Color := Known col\<rparr>
                              | None \<Rightarrow> data);
                      data = (case label_Team issueLabel of
                                Some t \<Rightarrow> data\<lparr>TeamId := Known (team_Id t)\<rparr>
                              | None \<Rightarrow> data);
                      (diags, st) = State_Set (State resp) data
                  in (resp\<lparr>State := st,
                           Diagnostics := Append (Diagnostics resp) diags\<rparr>, rm))"

text \<open>\<^verbatim>\<open>Update\<close> reads the plan only: the identifier it passes is the planned one.\<close>

definition Update :: "'w client \<Rightarrow> UpdateRequest \<Rightarrow> Response \<Rightarrow> 'w remote
    \<Rightarrow> Response \<times> 'w remote" where
  "Update c req resp rm =
     (let (diags, data) = Get (update_Plan req);
          resp = resp\<lparr>Diagnostics := Append (Diagnostics resp) diags\<rparr>
      in if HasError (Diagnostics resp) then (resp, rm)
         else
           let input = \<lparr>update_Name = Value (Name data),
                        update_Description = None,
                        update_Color = None\<rparr>;
               input = (if \<not> IsNull (Description data)
                        then input\<lparr>update_Description := Some (Value (Description data))\<rparr>
                        else input);
               input = (if \<not> IsUnknown (Color data)
                        then input\<lparr>update_Color := Some (Value (Color data))\<rparr>
                        else input);
               (response, rm) =
                 invoke (Call_updateLabel input (Value (Id' data)))
                   (updateLabel c input (Value (Id' data))) rm
           in case response of
                Inl err \<Rightarrow>
                  (resp\<lparr>Diagnostics := AddError (Diagnostics resp) ''Client Error''
                     (''Unable to update team label, got error: '' @ err)\<rparr>, rm)
              | Inr issueLabel \<Rightarrow>
                  let data = data\<lparr>Id' := Known (label_Id issueLabel)\<rparr>;
                      data = data\<lparr>Name := Known (label_Name issueLabel)\<rparr>;
                      data = (case label_Description issueLabel of
                                Some d \<Rightarrow> data\<lparr>Description := Known d\<rparr>
                              | None \<Rightarrow> data);
                      data = (case label_Color issueLabel of
                                Some col \<Rightarrow> data\<lparr>Color := Known col\<rparr>
                              | None \<Rightarrow> data);
                      data = (case label_Team issueLabel of
                                Some t \<Rightarrow> data\<lparr>TeamId := Known (team_Id t)\<rparr>
                              | None \<Rightarrow> data);
                      (diags, st) = State_Set (State resp) data
                  in (resp\<lparr>State := st,
                           Diagnostics := Append (Diagnostics resp) diags\<rparr>, rm))"

definition Delete :: "'w client \<Rightarrow> DeleteRequest \<Rightarrow> Response \<Rightarrow> 'w remote
    \<Rightarrow> Response \<times> 'w remote" where
  "Delete c req resp rm =
     (let (diags, data) = Get (delete_State req);
          resp = resp\<lparr>Diagnostics := Append (Diagnostics resp) diags\<rparr>
      in if HasError (Diagnostics resp) then (resp, rm)
         else
           let (response, rm) =
                 invoke (Call_deleteLabel (Value (Id' data))) (deleteLabel c (Value (Id' data))) rm
           in case response of
                Inl err \<Rightarrow>
                  (resp\<lparr>Diagnostics := AddError (Diagnostics resp) ''Client Error''
                     (''Unable to delete team label, got error: '' @ err)\<rparr>, rm)
              | Inr u \<Rightarrow> (resp, rm))"

subsection \<open>Import\<close>

text \<open>
  \<^verbatim>\<open>strings.Split(s, ":")\<close>: the pieces of \<open>s\<close> between the separators, in order; a string
  without the separator, the empty string too, gives the one piece \<open>s\<close>.
\<close>

fun Split :: "string \<Rightarrow> char \<Rightarrow> string list" where
  "Split [] sep = [Nil]"
| "Split (x # s) sep =
     (if x = sep then [] # Split s sep
      else (case Split s sep of
              [] \<Rightarrow> [x # Nil]
            | p # ps \<Rightarrow> (x # p) # ps))"

text \<open>
  \<open>quote\<close> is the \<^verbatim>\<open>%q\<close> verb of \<^verbatim>\<open>fmt.Sprintf\<close> (the Go-quoted string), a parameter.
\<close>

definition ImportState :: "(string \<Rightarrow> string) \<Rightarrow> 'w client \<Rightarrow> ImportStateRequest \<Rightarrow> Response
    \<Rightarrow> 'w remote \<Rightarrow> Response \<times> 'w remote" where
  "ImportState quote c req resp rm =
     (let parts = Split (ID req) (CHR '':'')
      in if length parts \<noteq> 2 \<or> parts ! 0 = [] \<or> parts ! 1 = []
         then (resp\<lparr>Diagnostics := AddError (Diagnostics resp) ''Unexpected Import Identifier''
                 (''Expected import identifier with format: label_name:team_key. Got: ''
                    @ quote (ID req))\<rparr>, rm)
         else
           let (response, rm) =
                 invoke (Call_findTeamLabel (parts ! 0) (parts ! 1))
                   (findTeamLabel c (parts ! 0) (parts ! 1)) rm
           in case response of
                Inl err \<Rightarrow>
                  (resp\<lparr>Diagnostics := AddError (Diagnostics resp) ''Client Error''
                     (''Unable to import team label, got error: '' @ err)\<rparr>, rm)
              | Inr nodes \<Rightarrow>
                  if length nodes \<noteq> 1
                  then (resp\<lparr>Diagnostics := AddError (Diagnostics resp) ''Client Error''
                          ''Unable to import team label, got error: label not found''\<rparr>, rm)
                  else
                    let (diags, st) = SetAttribute_id (State resp) (nodes ! 0)
                    in (resp\<lparr>State := st,
                             Diagnostics := Append (Diagnostics resp) diags\<rparr>, rm))"

section \<open>The schema and its validation\<close>

datatype plan_modifier = UseStateForUnknown | NullableString | RequiresReplace

datatype validator = MinLength nat | Match "string \<Rightarrow> bool"

record Attribute =
  MarkdownDescription :: string
  Required :: bool
  Optional :: bool
  Computed :: bool
  PlanModifiers :: "plan_modifier list"
  Validators :: "validator list"

text \<open>
  \<^verbatim>\<open>GetSchema\<close>: every attribute has the string type. The two patterns \<^verbatim>\<open>colorRegex()\<close> and
  \<^verbatim>\<open>uuidRegex()\<close> are parameters, each given as the predicate of the strings it matches.
\<close>

definition GetSchema :: "(string \<Rightarrow> bool) \<Rightarrow> (string \<Rightarrow> bool) \<Rightarrow> (string \<times> Attribute) list" where
  "GetSchema colorRegex uuidRegex =
     [(''id'', \<lparr>MarkdownDescription = ''Identifier of the label.'',
               Required = False, Optional = False, Computed = True,
               PlanModifiers = [UseStateForUnknown], Validators = []\<rparr>),
      (''name'', \<lparr>MarkdownDescription = ''Name of the label.'',
               Required = True, Optional = False, Computed = False,
               PlanModifiers = [], Validators = [MinLength 1]\<rparr>),
      (''description'', \<lparr>MarkdownDescription = ''Description of the label.'',
               Required = False, Optional = True, Computed = True,
               PlanModifiers = [NullableString], Validators = []\<rparr>),
      (''color'', \<lparr>MarkdownDescription = ''Color of the label.'',
               Required = False, Optional = True, Computed = True,
               PlanModifiers = [UseStateForUnknown], Validators = [Match colorRegex]\<rparr>),
      (''team_id'', \<lparr>MarkdownDescription = ''Identifier of the team.'',
               Required = True, Optional = False, Computed = False,
               PlanModifiers = [RequiresReplace], Validators = [Match uuidRegex]\<rparr>)]"

text \<open>The attribute of the model that a schema name denotes (the \<^verbatim>\<open>tfsdk\<close> tags).\<close>

definition attribute_value :: "TeamLabelResourceModel \<Rightarrow> string \<Rightarrow> types_String option" where
  "attribute_value m name =
     (if name = ''id'' then Some (Id' m)
      else if name = ''name'' then Some (Name m)
      else if name = ''description'' then Some (Description m)
      else if name = ''color'' then Some (Color m)
      else if name = ''team_id'' then Some (TeamId m)
      else None)"

text \<open>
  Modelled from the spec: the validators of the validator library, which this repository
  uses and does not contain. The spec says that a color must match its validation pattern
  or schema validation rejects it. A validator looks at a value that is set (known and not
  null) and reports an error diagnostic, naming the attribute, when the value does not
  satisfy it.
\<close>

fun Validate :: "validator \<Rightarrow> string \<Rightarrow> types_String \<Rightarrow> diagnostic list" where
  "Validate v name Unknown = []"
| "Validate v name Null = []"
| "Validate (MinLength n) name (Known s) =
     (if length s < n then [ErrorDiagnostic ''Invalid Attribute Value Length'' name] else [])"
| "Validate (Match re) name (Known s) =
     (if re s then [] else [ErrorDiagnostic ''Invalid Attribute Value Match'' name])"

text \<open>
  Modelled from the spec: the schema validation of the host framework, which is not part
  of this repository. It runs the validators of every attribute of the schema on the
  value of that attribute in the configuration.
\<close>

definition ValidateAttribute :: "TeamLabelResourceModel \<Rightarrow> string \<times> Attribute \<Rightarrow> diagnostic list" where
  "ValidateAttribute config na =
     (case attribute_value config (fst na) of
        None \<Rightarrow> []
      | Some v \<Rightarrow> concat (map (\<lambda>vd. Validate vd (fst na) v) (Validators (snd na))))"

definition ValidateConfig :: "(string \<times> Attribute) list \<Rightarrow> TeamLabelResourceModel \<Rightarrow> diagnostic list" where
  "ValidateConfig schema config = concat (map (ValidateAttribute config) schema)"

text \<open>
  Modelled from the spec: the order in which the host framework, which is not part of this
  repository, validates and applies. The spec says that schema validation rejects a
  configuration before any remote call: an operation of the resource runs only when the
  validation of the configuration reported no error.
\<close>

definition validated :: "(string \<times> Attribute) list \<Rightarrow> TeamLabelResourceModel
    \<Rightarrow> (Response \<Rightarrow> 'w remote \<Rightarrow> Response \<times> 'w remote)
    \<Rightarrow> Response \<Rightarrow> 'w remote \<Rightarrow> Response \<times> 'w remote" where
  "validated schema config operation resp rm =
     (let diags = ValidateConfig schema config
      in if HasError diags then (resp\<lparr>Diagnostics := Append (Diagnostics resp) diags\<rparr>, rm)
         else operation resp rm)"

section \<open>Notions used to state the properties\<close>

text \<open>The request input that \<open>Create\<close> and \<open>Update\<close> are expected to send for a plan.\<close>

definition create_input :: "TeamLabelResourceModel \<Rightarrow> IssueLabelCreateInput" where
  "create_input plan =
     \<lparr>create_Name = Value (Name plan),
      create_TeamId = Some (Value (TeamId plan)),
      create_Description = (if IsNull (Description plan) then None
                            else Some (Value (Description plan))),
      create_Color = (if IsUnknown (Color plan) then None else Some (Value (Color plan)))\<rparr>"

definition update_input :: "TeamLabelResourceModel \<Rightarrow> IssueLabelUpdateInput" where
  "update_input plan =
     \<lparr>update_Name = Value (Name plan),
      update_Description = (if IsNull (Description plan) then None
                            else Some (Value (Description plan))),
      update_Color = (if IsUnknown (Color plan) then None else Some (Value (Color plan)))\<rparr>"

text \<open>
  The object that the three reading and writing operations leave in the state: identifier
  and name of the returned label, and of the three other attributes the returned value
  where the label carries one, the value of \<open>data\<close> otherwise.
\<close>

definition reconciled :: "TeamLabelResourceModel \<Rightarrow> IssueLabel \<Rightarrow> TeamLabelResourceModel" where
  "reconciled data issueLabel =
     \<lparr>Id' = Known (label_Id issueLabel),
      Name = Known (label_Name issueLabel),
      Description = (case label_Description issueLabel of
                       Some d \<Rightarrow> Known d | None \<Rightarrow> Description data),
      Color = (case label_Color issueLabel of Some col \<Rightarrow> Known col | None \<Rightarrow> Color data),
      TeamId = (case label_Team issueLabel of
                  Some t \<Rightarrow> Known (team_Id t) | None \<Rightarrow> TeamId data)\<rparr>"

text \<open>The value of a state attribute that stands for a returned pointer: null for \<^verbatim>\<open>nil\<close>.\<close>

fun returned :: "string option \<Rightarrow> types_String" where
  "returned None = Null"
| "returned (Some v) = Known v"

text \<open>The generic diagnostic of a failed remote call, for the verb of the operation.\<close>

definition client_error :: "string \<Rightarrow> string \<Rightarrow> diagnostic" where
  "client_error verb err =
     ErrorDiagnostic ''Client Error'' (''Unable to '' @ verb @ '' team label, got error: '' @ err)"

text \<open>An import identifier of the form \<^verbatim>\<open>label_name:team_key\<close>, both parts non-empty.\<close>

definition well_formed_id :: "string \<Rightarrow> bool" where
  "well_formed_id s =
     (let parts = Split s (CHR '':'')
      in length parts = 2 \<and> parts ! 0 \<noteq> [] \<and> parts ! 1 \<noteq> [])"

section \<open>A server for the examples\<close>

text \<open>
  A server that holds at most one label. It refuses a label without a name, assigns the
  identifier \<open>''label-1''\<close>, stores what was created and returns it, answers a request for
  an identifier that it does not hold with an error, and echoes the identifier on update.
\<close>

definition example_client :: "IssueLabel option client" where
  "example_client =
     \<lparr>createLabel = (\<lambda>input w.
        if create_Name input = [] then (Inl ''name must not be empty'', w)
        else
          let l = \<lparr>label_Id = ''label-1'', label_Name = create_Name input,
                   label_Description = create_Description input,
                   label_Color = (case create_Color input of
                                    None \<Rightarrow> Some ''#bec2c8'' | Some col \<Rightarrow> Some col),
                   label_Team = map_option Team (create_TeamId input)\<rparr>
          in (Inr l, Some l)),
      getLabel = (\<lambda>ident w.
        case w of
          None \<Rightarrow> (Inl ''Entity not found: IssueLabel'', w)
        | Some l \<Rightarrow> if label_Id l = ident then (Inr l, w)
                    else (Inl ''Entity not found: IssueLabel'', w)),
      updateLabel = (\<lambda>input ident w.
        case w of
          None \<Rightarrow> (Inl ''Entity not found: IssueLabel'', w)
        | Some l \<Rightarrow>
            let l' = l\<lparr>label_Id := ident, label_Name := update_Name input,
                       label_Description := update_Description input\<rparr>
            in (Inr l', Some l')),
      deleteLabel = (\<lambda>ident w.
        case w of
          None \<Rightarrow> (Inl ''Entity not found: IssueLabel'', w)
        | Some l \<Rightarrow> (Inr (), None)),
      findTeamLabel = (\<lambda>name key w.
        case w of
          None \<Rightarrow> (Inr [], w)
        | Some l \<Rightarrow> (Inr (if label_Name l = name then [label_Id l] else []), w))\<rparr>"

definition example_plan :: TeamLabelResourceModel where
  "example_plan =
     \<lparr>Id' = Unknown, Name = Known ''bug'', Description = Known ''Something is broken'',
      Color = Known ''#ff0000'', TeamId = Known ''0a1b2c3d-0000-4000-8000-000000000001''\<rparr>"

definition example_label :: IssueLabel where
  "example_label =
     \<lparr>label_Id = ''label-1'', label_Name = ''bug'',
      label_Description = Some ''Something is broken'', label_Color = Some ''#ff0000'',
      label_Team = Some (Team ''0a1b2c3d-0000-4000-8000-000000000001'')\<rparr>"

definition example_state :: TeamLabelResourceModel where
  "example_state =
     \<lparr>Id' = Known ''label-1'', Name = Known ''bug'', Description = Known ''Something is broken'',
      Color = Known ''#ff0000'', TeamId = Known ''0a1b2c3d-0000-4000-8000-000000000001''\<rparr>"

definition empty_response :: Response where
  "empty_response = \<lparr>State = None, Diagnostics = []\<rparr>"

definition remote_of :: "'w \<Rightarrow> 'w remote" where
  "remote_of w = \<lparr>server = w, calls = []\<rparr>"

text \<open>A server whose update drops the description: the returned label carries none.\<close>

definition terse_client :: "unit client" where
  "terse_client =
     \<lparr>createLabel = (\<lambda>input w.
        (Inr \<lparr>label_Id = ''label-1'', label_Name = create_Name input,
              label_Description = None, label_Color = None, label_Team = None\<rparr>, w)),
      getLabel = (\<lambda>ident w. (Inl ''Entity not found: IssueLabel'', w)),
      updateLabel = (\<lambda>input ident w.
        (Inr \<lparr>label_Id = ident, label_Name = update_Name input,
              label_Description = None, label_Color = None, label_Team = None\<rparr>, w)),
      deleteLabel = (\<lambda>ident w. (Inr (), w)),
      findTeamLabel = (\<lambda>name key w. (Inr [''label-1'', ''label-2''], w))\<rparr>"

text \<open>The quoted form of a string of printable characters without quote or backslash.\<close>

definition go_quote :: "string \<Rightarrow> string" where
  "go_quote s = CHR 0x22 # s @ [CHR 0x22]"

text \<open>A color pattern of the shape \<^verbatim>\<open>#rrggbb\<close>, and a pattern that matches every string.\<close>

definition hex_color :: "string \<Rightarrow> bool" where
  "hex_color s =
     (case s of
        [] \<Rightarrow> False
      | x # digits \<Rightarrow> x = CHR ''#'' \<and> length digits = 6
                     \<and> list_all (\<lambda>d. d \<in> set ''0123456789abcdefABCDEF'') digits)"

definition any_string :: "string \<Rightarrow> bool" where
  "any_string s = True"

section \<open>Auxiliary facts\<close>

lemma HasError_iff: "HasError ds \<longleftrightarrow> (\<exists>d\<in>set ds. is_ErrorDiagnostic d)"
  by (simp add: HasError_def list_ex_iff)

lemma AddError_fresh:
  "\<not> HasError ds \<Longrightarrow> AddError ds summary detail = ds @ [ErrorDiagnostic summary detail]"
  by (auto simp: AddError_def HasError_iff)

lemma AddError_member: "ErrorDiagnostic summary detail \<in> set (AddError ds summary detail)"
  by (simp add: AddError_def)

lemma errors_of_fresh:
  "\<not> HasError ds \<Longrightarrow> filter is_ErrorDiagnostic (ds @ [ErrorDiagnostic summary detail]) =
     [ErrorDiagnostic summary detail]"
  by (induction ds) (auto simp: HasError_iff)

lemma Create_eq:
  "Create c req resp rm =
     (if HasError (Diagnostics resp) then (resp, rm)
      else case createLabel c (create_input (create_Plan req)) (server rm) of
        (Inl err, w) \<Rightarrow>
          (resp\<lparr>Diagnostics := AddError (Diagnostics resp) ''Client Error''
                  (''Unable to create team label, got error: '' @ err)\<rparr>,
           \<lparr>server = w, calls = calls rm @ [Call_createLabel (create_input (create_Plan req))]\<rparr>)
      | (Inr issueLabel, w) \<Rightarrow>
          (resp\<lparr>State := Some (reconciled (create_Plan req) issueLabel)\<rparr>,
           \<lparr>server = w, calls = calls rm @ [Call_createLabel (create_input (create_Plan req))]\<rparr>))"
proof -
  obtain i n d cl t where plan:
    "create_Plan req = \<lparr>Id' = i, Name = n, Description = d, Color = cl, TeamId = t\<rparr>"
    by (cases "create_Plan req") auto
  let ?base = "\<lparr>create_Name = Value n, create_TeamId = Some (Value t),
                 create_Description = None, create_Color = None\<rparr>"
  have inp: "(if \<not> IsUnknown cl
       then (if \<not> IsNull d then ?base\<lparr>create_Description := Some (Value d)\<rparr> else ?base)
            \<lparr>create_Color := Some (Value cl)\<rparr>
       else if \<not> IsNull d then ?base\<lparr>create_Description := Some (Value d)\<rparr> else ?base)
     = create_input (create_Plan req)"
    by (simp add: create_input_def plan)
  show ?thesis
    unfolding Create_def Let_def Get_def prod.case plan TeamLabelResourceModel.simps inp
    by (simp add: invoke_def State_Set_def reconciled_def plan
             split: prod.splits sum.splits option.splits)
qed

lemma Read_eq:
  "Read c req resp rm =
     (if HasError (Diagnostics resp) then (resp, rm)
      else case getLabel c (Value (Id' (read_State req))) (server rm) of
        (Inl err, w) \<Rightarrow>
          (resp\<lparr>Diagnostics := AddError (Diagnostics resp) ''Client Error''
                  (''Unable to read team label, got error: '' @ err)\<rparr>,
           \<lparr>server = w, calls = calls rm @ [Call_getLabel (Value (Id' (read_State req)))]\<rparr>)
      | (Inr issueLabel, w) \<Rightarrow>
          (resp\<lparr>State := Some (reconciled (read_State req) issueLabel)\<rparr>,
           \<lparr>server = w, calls = calls rm @ [Call_getLabel (Value (Id' (read_State req)))]\<rparr>))"
proof -
  obtain i n d cl t where st:
    "read_State req = \<lparr>Id' = i, Name = n, Description = d, Color = cl, TeamId = t\<rparr>"
    by (cases "read_State req") auto
  show ?thesis
    unfolding Read_def Let_def Get_def prod.case st TeamLabelResourceModel.simps
    by (simp add: invoke_def State_Set_def reconciled_def st
             split: prod.splits sum.splits option.splits)
qed

lemma Update_eq:
  "Update c req resp rm =
     (if HasError (Diagnostics resp) then (resp, rm)
      else case updateLabel c (update_input (update_Plan req)) (Value (Id' (update_Plan req)))
                  (server rm) of
        (Inl err, w) \<Rightarrow>
          (resp\<lparr>Diagnostics := AddError (Diagnostics resp) ''Client Error''
                  (''Unable to update team label, got error: '' @ err)\<rparr>,
           \<lparr>server = w,
            calls = calls rm @ [Call_updateLabel (update_input (update_Plan req))
                                  (Value (Id' (update_Plan req)))]\<rparr>)
      | (Inr issueLabel, w) \<Rightarrow>
          (resp\<lparr>State := Some (reconciled (update_Plan req) issueLabel)\<rparr>,
           \<lparr>server = w,
            calls = calls rm @ [Call_updateLabel (update_input (update_Plan req))
                                  (Value (Id' (update_Plan req)))]\<rparr>))"
proof -
  obtain i n d cl t where plan:
    "update_Plan req = \<lparr>Id' = i, Name = n, Description = d, Color = cl, TeamId = t\<rparr>"
    by (cases "update_Plan req") auto
  let ?base = "\<lparr>update_Name = Value n, update_Description = None, update_Color = None\<rparr>"
  have inp: "(if \<not> IsUnknown cl
       then (if \<not> IsNull d then ?base\<lparr>update_Description := Some (Value d)\<rparr> else ?base)
            \<lparr>update_Color := Some (Value cl)\<rparr>
       else if \<not> IsNull d then ?base\<lparr>update_Description := Some (Value d)\<rparr> else ?base)
     = update_input (update_Plan req)"
    by (simp add: update_input_def plan)
  show ?thesis
    unfolding Update_def Let_def Get_def prod.case plan TeamLabelResourceModel.simps inp
    by (simp add: invoke_def State_Set_def reconciled_def plan
             split: prod.splits sum.splits option.splits)
qed

lemma Delete_eq:
  "Delete c req resp rm =
     (if HasError (Diagnostics resp) then (resp, rm)
      else case deleteLabel c (Value (Id' (delete_State req))) (server rm) of
        (Inl err, w) \<Rightarrow>
          (resp\<lparr>Diagnostics := AddError (Diagnostics resp) ''Client Error''
                  (''Unable to delete team label, got error: '' @ err)\<rparr>,
           \<lparr>server = w, calls = calls rm @ [Call_deleteLabel (Value (Id' (delete_State req)))]\<rparr>)
      | (Inr u, w) \<Rightarrow>
          (resp,
           \<lparr>server = w, calls = calls rm @ [Call_deleteLabel (Value (Id' (delete_State req)))]\<rparr>))"
  unfolding Delete_def Let_def Get_def prod.case
  by (simp add: invoke_def split: prod.splits sum.splits)

lemma ImportState_malformed:
  assumes "\<not> well_formed_id (ID req)"
  shows "ImportState quote c req resp rm =
     (resp\<lparr>Diagnostics := AddError (Diagnostics resp) ''Unexpected Import Identifier''
              (''Expected import identifier with format: label_name:team_key. Got: ''
                 @ quote (ID req))\<rparr>, rm)"
  using assms unfolding ImportState_def well_formed_id_def Let_def by auto

lemma ImportState_well_formed:
  assumes "Split (ID req) (CHR '':'') = [label_name, team_key]"
    and "label_name \<noteq> []" and "team_key \<noteq> []"
  shows "ImportState quote c req resp rm =
     (case findTeamLabel c label_name team_key (server rm) of
        (Inl err, w) \<Rightarrow>
          (resp\<lparr>Diagnostics := AddError (Diagnostics resp) ''Client Error''
                  (''Unable to import team label, got error: '' @ err)\<rparr>,
           \<lparr>server = w, calls = calls rm @ [Call_findTeamLabel label_name team_key]\<rparr>)
      | (Inr nodes, w) \<Rightarrow>
          if length nodes \<noteq> 1
          then (resp\<lparr>Diagnostics := AddError (Diagnostics resp) ''Client Error''
                  ''Unable to import team label, got error: label not found''\<rparr>,
                \<lparr>server = w, calls = calls rm @ [Call_findTeamLabel label_name team_key]\<rparr>)
          else (resp\<lparr>State := Some ((case State resp of None \<Rightarrow> null_object
                                        | Some obj \<Rightarrow> obj)\<lparr>Id' := Known (nodes ! 0)\<rparr>)\<rparr>,
                \<lparr>server = w, calls = calls rm @ [Call_findTeamLabel label_name team_key]\<rparr>))"
  using assms unfolding ImportState_def Let_def
  by (simp add: invoke_def SetAttribute_id_def split: prod.splits sum.splits)

section \<open>Further auxiliary facts\<close>

lemma set_Append: "set (Append ds new) = set ds \<union> set new"
  by (induction new arbitrary: ds) auto

lemma HasError_Append: "HasError (Append ds new) \<longleftrightarrow> HasError ds \<or> HasError new"
  by (auto simp: HasError_iff set_Append)

lemma no_errors: "\<not> HasError ds \<Longrightarrow> filter is_ErrorDiagnostic ds = []"
  by (simp add: HasError_iff filter_empty_conv)

lemma reconciled_idem: "reconciled (reconciled data l) l = reconciled data l"
  by (simp add: reconciled_def split: option.splits)

lemma Value_Id_reconciled: "Value (Id' (reconciled data l)) = label_Id l"
  by (simp add: reconciled_def)

subsection \<open>Splitting the import identifier\<close>

lemma Split_not_Nil: "Split s sep \<noteq> []"
  by (induction s) (auto split: list.splits)

lemma Split_no_sep: "sep \<notin> set s \<Longrightarrow> Split s sep = [s]"
  by (induction s) auto

lemma Split_single: "Split s sep = [b] \<Longrightarrow> s = b \<and> sep \<notin> set b"
  by (induction s arbitrary: b) (auto split: if_splits list.splits simp: Split_not_Nil)

lemma Split_pair:
  "Split s sep = [a, b] \<Longrightarrow> s = a @ sep # b \<and> sep \<notin> set a \<and> sep \<notin> set b"
proof (induction s arbitrary: a)
  case Nil
  then show ?case by simp
next
  case (Cons x s)
  show ?case
  proof (cases "x = sep")
    case True
    with Cons.prems have "a = []" and "Split s sep = [b]" by auto
    with True Split_single [of s sep b] show ?thesis by simp
  next
    case False
    with Cons.prems obtain p where "a = x # p" and "Split s sep = [p, b]"
      by (auto split: list.splits)
    with False Cons.IH [of p] show ?thesis by simp
  qed
qed

lemma Split_append_sep:
  "sep \<notin> set a \<Longrightarrow> Split (a @ sep # b) sep = a # Split b sep"
  by (induction a) auto

lemma length_two: "length xs = 2 \<longleftrightarrow> (\<exists>a b. xs = [a, b])"
  by (auto simp: numeral_2_eq_2 length_Suc_conv)

lemma well_formed_id_parts:
  "well_formed_id s \<longleftrightarrow> (\<exists>a b. Split s (CHR '':'') = [a, b] \<and> a \<noteq> [] \<and> b \<noteq> [])"
  unfolding well_formed_id_def Let_def length_two by auto

lemma well_formed_id_iff:
  "well_formed_id s \<longleftrightarrow>
     (\<exists>a b. s = a @ CHR '':'' # b \<and> a \<noteq> [] \<and> b \<noteq> []
            \<and> CHR '':'' \<notin> set a \<and> CHR '':'' \<notin> set b)"
  (is "?lhs \<longleftrightarrow> ?rhs")
proof
  assume ?lhs
  then obtain a b where ab: "Split s (CHR '':'') = [a, b]" "a \<noteq> []" "b \<noteq> []"
    unfolding well_formed_id_parts by blast
  from Split_pair [OF ab(1)] ab(2,3) show ?rhs by blast
next
  assume ?rhs
  then obtain a b where ab: "s = a @ CHR '':'' # b" "a \<noteq> []" "b \<noteq> []"
    "CHR '':'' \<notin> set a" "CHR '':'' \<notin> set b" by blast
  have "Split s (CHR '':'') = [a, b]"
    using ab(1,4,5) by (simp add: Split_append_sep Split_no_sep)
  with ab(2,3) show ?lhs unfolding well_formed_id_parts by blast
qed

lemma Split_examples:
  "Split ''bug:ENG'' (CHR '':'') = [''bug'', ''ENG'']"
  "Split ''bug'' (CHR '':'') = [''bug'']"
  "Split ''bug:'' (CHR '':'') = [''bug'', []]"
  "Split '':ENG'' (CHR '':'') = [Nil, ''ENG'']"
  "Split ''bug:ENG:x'' (CHR '':'') = [''bug'', ''ENG'', ''x'']"
  "Split [] (CHR '':'') = [Nil]"
  by simp_all

lemma ImportState_format_error:
  "(ErrorDiagnostic ''Unexpected Import Identifier''
       (''Expected import identifier with format: label_name:team_key. Got: '' @ quote (ID req))
      \<in> set (Diagnostics (fst (ImportState quote c req resp rm)))
    \<and> calls (snd (ImportState quote c req resp rm)) = calls rm)
   \<longleftrightarrow> \<not> well_formed_id (ID req)"
proof (cases "well_formed_id (ID req)")
  case True
  then obtain a b where "Split (ID req) (CHR '':'') = [a, b]" "a \<noteq> []" "b \<noteq> []"
    unfolding well_formed_id_parts by blast
  then have "calls (snd (ImportState quote c req resp rm)) = calls rm @ [Call_findTeamLabel a b]"
    by (simp add: ImportState_well_formed split: prod.splits sum.splits)
  with True show ?thesis by simp
next
  case False
  with ImportState_malformed [OF False, of quote c resp rm] show ?thesis
    by (simp add: AddError_member)
qed

subsection \<open>The example server\<close>

lemma empty_response_ok: "\<not> HasError (Diagnostics empty_response)"
  by (simp add: empty_response_def HasError_def)

lemma example_createLabel:
  "createLabel example_client (create_input example_plan) w = (Inr example_label, Some example_label)"
  by (simp add: example_client_def create_input_def example_plan_def example_label_def Let_def)

lemma example_updateLabel:
  "updateLabel example_client (update_input (example_state\<lparr>Color := Unknown\<rparr>)) ''label-1''
     (Some example_label) = (Inr example_label, Some example_label)"
  by (simp add: example_client_def update_input_def example_state_def example_label_def Let_def)

lemma example_getLabel:
  "getLabel example_client ''label-1'' (Some example_label) = (Inr example_label, Some example_label)"
  by (simp add: example_client_def example_label_def)

lemma example_not_found:
  "getLabel example_client ident None = (Inl ''Entity not found: IssueLabel'', None)"
  "updateLabel example_client input ident None = (Inl ''Entity not found: IssueLabel'', None)"
  "deleteLabel example_client ident None = (Inl ''Entity not found: IssueLabel'', None)"
  by (simp_all add: example_client_def)

lemma example_create_refused:
  "createLabel example_client (create_input (example_plan\<lparr>Name := Known []\<rparr>)) w =
     (Inl ''name must not be empty'', w)"
  by (simp add: example_client_def create_input_def example_plan_def)

lemma example_reconciled: "reconciled example_plan example_label = example_state"
  "reconciled example_state example_label = example_state"
  "reconciled (example_state\<lparr>Color := Unknown\<rparr>) example_label = example_state"
  by (simp_all add: reconciled_def example_plan_def example_label_def example_state_def)

lemma terse_updateLabel:
  "updateLabel terse_client input ident w =
     (Inr \<lparr>label_Id = ident, label_Name = update_Name input, label_Description = None,
           label_Color = None, label_Team = None\<rparr>, w)"
  by (simp add: terse_client_def)

section \<open>The properties\<close>

subsection \<open>C1: the state after Create and Update\<close>

text \<open>
  Claim C1, as the code has it: after a successful \<open>Create\<close> and after a successful
  \<open>Update\<close> the state holds the identifier and the name of the returned label; description,
  color and team identifier are those of the returned label where the label carries them
  (the pointer is not \<^verbatim>\<open>nil\<close>), and the planned values otherwise.
\<close>

theorem state_after_mutation:
  assumes "\<not> HasError (Diagnostics resp)"
  shows "(createLabel c (create_input (create_Plan creq)) (server rm) = (Inr l, w) \<longrightarrow>
           State (fst (Create c creq resp rm)) =
             Some \<lparr>Id' = Known (label_Id l), Name = Known (label_Name l),
                   Description = (case label_Description l of
                                    Some d \<Rightarrow> Known d | None \<Rightarrow> Description (create_Plan creq)),
                   Color = (case label_Color l of
                              Some col \<Rightarrow> Known col | None \<Rightarrow> Color (create_Plan creq)),
                   TeamId = (case label_Team l of
                               Some t \<Rightarrow> Known (team_Id t) | None \<Rightarrow> TeamId (create_Plan creq))\<rparr>)
       \<and> (updateLabel c (update_input (update_Plan ureq)) (Value (Id' (update_Plan ureq)))
             (server rm') = (Inr l', w') \<longrightarrow>
           State (fst (Update c ureq resp rm')) =
             Some \<lparr>Id' = Known (label_Id l'), Name = Known (label_Name l'),
                   Description = (case label_Description l' of
                                    Some d \<Rightarrow> Known d | None \<Rightarrow> Description (update_Plan ureq)),
                   Color = (case label_Color l' of
                              Some col \<Rightarrow> Known col | None \<Rightarrow> Color (update_Plan ureq)),
                   TeamId = (case label_Team l' of
                               Some t \<Rightarrow> Known (team_Id t) | None \<Rightarrow> TeamId (update_Plan ureq))\<rparr>)"
  using assms by (simp add: Create_eq Update_eq reconciled_def)

text \<open>
  An instance of C1: the server returns the label as created, and as updated.
\<close>

theorem state_after_mutation_witness:
  "State (fst (Create example_client \<lparr>create_Plan = example_plan\<rparr> empty_response (remote_of None)))
     = Some example_state
   \<and> State (fst (Update example_client
                 \<lparr>update_Plan = example_state\<lparr>Color := Unknown\<rparr>, update_State = example_state\<rparr>
                 empty_response (remote_of (Some example_label))))
     = Some example_state"
  using state_after_mutation [OF empty_response_ok, of example_client
      "\<lparr>create_Plan = example_plan\<rparr>" "remote_of None" example_label "Some example_label"
      "\<lparr>update_Plan = example_state\<lparr>Color := Unknown\<rparr>, update_State = example_state\<rparr>"
      "remote_of (Some example_label)" example_label "Some example_label"]
    example_createLabel [of None] example_updateLabel
  by (simp add: remote_of_def example_label_def example_state_def example_plan_def)

text \<open>
  Claim C1 as stated (every attribute of the state equals the value of the response, for
  every plan and every response) fails where the response carries no description: the
  planned description stays in the state, while the value of the response is null.
\<close>

theorem state_after_mutation_counterexample:
  "fst (updateLabel terse_client (update_input example_state) ''label-1'' ()) =
     Inr \<lparr>label_Id = ''label-1'', label_Name = ''bug'', label_Description = None,
          label_Color = None, label_Team = None\<rparr>
   \<and> map_option Description
        (State (fst (Update terse_client
                       \<lparr>update_Plan = example_state, update_State = example_state\<rparr>
                       empty_response (remote_of ()))))
       = Some (Known ''Something is broken'')
   \<and> Known ''Something is broken'' \<noteq> returned None"
  using empty_response_ok
  by (simp add: Update_eq terse_updateLabel remote_of_def reconciled_def example_state_def
        update_input_def)

subsection \<open>C2: Read and a label that is not found\<close>

text \<open>
  Claim C2, as the code has it: \<open>Read\<close> fetches the label by the identifier of the prior
  state, with one remote call; every failure of that call, a label that is not found
  included, is reported as the generic client-error diagnostic that carries the text of
  the error, and the state is left as it was.
\<close>

theorem Read_failure_is_client_error:
  assumes "\<not> HasError (Diagnostics resp)"
  shows "calls (snd (Read c req resp rm)) = calls rm @ [Call_getLabel (Value (Id' (read_State req)))]
       \<and> (getLabel c (Value (Id' (read_State req))) (server rm) = (Inl err, w) \<longrightarrow>
            Diagnostics (fst (Read c req resp rm)) = Diagnostics resp @ [client_error ''read'' err]
            \<and> State (fst (Read c req resp rm)) = State resp)"
  using assms
  by (simp add: Read_eq AddError_fresh client_error_def split: prod.splits sum.splits)

text \<open>
  An instance of C2: the server holds no label.
\<close>

theorem Read_failure_is_client_error_witness:
  "calls (snd (Read example_client \<lparr>read_State = example_state\<rparr> empty_response (remote_of None)))
     = [Call_getLabel ''label-1'']
   \<and> Diagnostics (fst (Read example_client \<lparr>read_State = example_state\<rparr> empty_response
                         (remote_of None)))
     = [ErrorDiagnostic ''Client Error''
          ''Unable to read team label, got error: Entity not found: IssueLabel'']
   \<and> State (fst (Read example_client \<lparr>read_State = example_state\<rparr> empty_response
                   (remote_of None))) = None"
  using Read_failure_is_client_error [OF empty_response_ok, of example_client
      "\<lparr>read_State = example_state\<rparr>" "remote_of None" "''Entity not found: IssueLabel''" None]
    example_not_found(1) [of "''label-1''"]
  by (simp add: remote_of_def example_state_def empty_response_def client_error_def)

text \<open>
  Claim C2 as stated (a distinct not-found error) fails: for a label that the server does
  not hold, \<open>Read\<close> reports the generic client-error diagnostic of every other remote
  failure, filled with the text of the server's error.
\<close>

theorem Read_not_found_counterexample:
  "fst (getLabel example_client ''label-1'' None) = Inl ''Entity not found: IssueLabel''
   \<and> Diagnostics (fst (Read example_client \<lparr>read_State = example_state\<rparr> empty_response
                         (remote_of None)))
     = [client_error ''read'' ''Entity not found: IssueLabel'']"
  using empty_response_ok example_not_found(1) [of "''label-1''"]
  by (simp add: Read_eq remote_of_def example_state_def AddError_fresh empty_response_def
        client_error_def)

subsection \<open>C3: Create, then Read\<close>

text \<open>
  Claim C3: when the server returns for the identifier of the created label the label that
  the creation returned, \<open>Read\<close> on the state that \<open>Create\<close> wrote leaves exactly that state.
  This holds for every plan, so for the valid ones (non-empty name, color and team
  identifier of the required patterns).
\<close>

theorem Create_then_Read:
  assumes "\<not> HasError (Diagnostics resp)"
    and "\<not> HasError (Diagnostics resp')"
    and "createLabel c (create_input (create_Plan req)) (server rm) = (Inr l, w)"
    and "getLabel c (label_Id l) w = (Inr l, w')"
  shows "\<exists>st. State (fst (Create c req resp rm)) = Some st
            \<and> State (fst (Read c \<lparr>read_State = st\<rparr> resp' (snd (Create c req resp rm)))) = Some st"
  using assms by (simp add: Create_eq Read_eq Value_Id_reconciled reconciled_idem)

text \<open>
  An instance of C3: create the label of the example plan on the empty server, then read it.
\<close>

theorem Create_then_Read_witness:
  "State (fst (Create example_client \<lparr>create_Plan = example_plan\<rparr> empty_response
                 (remote_of None))) = Some example_state
   \<and> State (fst (Read example_client \<lparr>read_State = example_state\<rparr> empty_response
                  (snd (Create example_client \<lparr>create_Plan = example_plan\<rparr> empty_response
                         (remote_of None))))) = Some example_state"
proof -
  have "createLabel example_client (create_input (create_Plan \<lparr>create_Plan = example_plan\<rparr>))
          (server (remote_of None)) = (Inr example_label, Some example_label)"
    by (simp add: example_createLabel)
  moreover have "getLabel example_client (label_Id example_label) (Some example_label) =
      (Inr example_label, Some example_label)"
    by (simp add: example_client_def)
  ultimately have "\<exists>st. State (fst (Create example_client \<lparr>create_Plan = example_plan\<rparr>
        empty_response (remote_of None))) = Some st
      \<and> State (fst (Read example_client \<lparr>read_State = st\<rparr> empty_response
            (snd (Create example_client \<lparr>create_Plan = example_plan\<rparr> empty_response
               (remote_of None))))) = Some st"
    by (rule Create_then_Read [OF empty_response_ok empty_response_ok])
  moreover have "State (fst (Create example_client \<lparr>create_Plan = example_plan\<rparr> empty_response
                 (remote_of None))) = Some example_state"
    using empty_response_ok by (simp add: Create_eq example_createLabel example_reconciled)
  ultimately show ?thesis by auto
qed

subsection \<open>C4: malformed import identifiers\<close>

text \<open>
  Claim C4: \<open>ImportState\<close> reports the format error and makes no remote call if and only
  if splitting the identifier at the colons does not give exactly two non-empty parts.
  The identifiers with two non-empty parts are those of the form \<open>a:b\<close> with \<open>a\<close> and \<open>b\<close>
  non-empty and without a colon: a missing colon, an empty name or key, and a second
  colon are all malformed.
\<close>

theorem ImportState_format_error_iff:
  "((ErrorDiagnostic ''Unexpected Import Identifier''
        (''Expected import identifier with format: label_name:team_key. Got: '' @ quote (ID req))
       \<in> set (Diagnostics (fst (ImportState quote c req resp rm)))
     \<and> calls (snd (ImportState quote c req resp rm)) = calls rm)
    \<longleftrightarrow> \<not> well_formed_id (ID req))
   \<and> (well_formed_id (ID req) \<longleftrightarrow>
        (\<exists>a b. ID req = a @ CHR '':'' # b \<and> a \<noteq> [] \<and> b \<noteq> []
               \<and> CHR '':'' \<notin> set a \<and> CHR '':'' \<notin> set b))"
  using ImportState_format_error [of quote req c resp rm] well_formed_id_iff [of "ID req"]
  by (rule conjI)

text \<open>
  Instances of C4: \<open>''bug''\<close> is malformed, \<open>''bug:ENG''\<close> is well-formed.
\<close>

theorem ImportState_format_error_iff_witness:
  "\<not> well_formed_id ''bug''
   \<and> ErrorDiagnostic ''Unexpected Import Identifier''
       (''Expected import identifier with format: label_name:team_key. Got: '' @ go_quote ''bug'')
       \<in> set (Diagnostics (fst (ImportState go_quote example_client \<lparr>ID = ''bug''\<rparr>
                                    empty_response (remote_of None))))
   \<and> calls (snd (ImportState go_quote example_client \<lparr>ID = ''bug''\<rparr> empty_response
                   (remote_of None))) = []
   \<and> well_formed_id ''bug:ENG''
   \<and> \<not> (ErrorDiagnostic ''Unexpected Import Identifier''
          (''Expected import identifier with format: label_name:team_key. Got: ''
             @ go_quote ''bug:ENG'')
          \<in> set (Diagnostics (fst (ImportState go_quote example_client \<lparr>ID = ''bug:ENG''\<rparr>
                                       empty_response (remote_of None))))
        \<and> calls (snd (ImportState go_quote example_client \<lparr>ID = ''bug:ENG''\<rparr> empty_response
                        (remote_of None))) = [])"
proof -
  have bad: "\<not> well_formed_id ''bug''"
    by (simp add: well_formed_id_def)
  have good: "well_formed_id ''bug:ENG''"
    by (simp add: well_formed_id_def)
  have none: "calls (remote_of (None :: IssueLabel option)) = []"
    by (simp add: remote_of_def)
  note malformed = ImportState_format_error_iff [of go_quote "\<lparr>ID = ''bug''\<rparr>" example_client
      empty_response "remote_of None", unfolded ImportStateRequest.select_convs none]
  note well_formed = ImportState_format_error_iff [of go_quote "\<lparr>ID = ''bug:ENG''\<rparr>"
      example_client empty_response "remote_of None", unfolded ImportStateRequest.select_convs none]
  from bad good malformed well_formed show ?thesis
    by blast
qed

subsection \<open>C5: the number of matches of an import\<close>

text \<open>
  Claim C5: for a well-formed identifier whose search succeeds, a number of matches other
  than one gives the not-found error and leaves the state as it was; exactly one match
  writes the identifier of the match into the attribute \<^verbatim>\<open>id\<close> of the state and adds no
  diagnostic.
\<close>

theorem ImportState_matches:
  assumes "Split (ID req) (CHR '':'') = [label_name, team_key]"
    and "label_name \<noteq> []" and "team_key \<noteq> []"
    and "findTeamLabel c label_name team_key (server rm) = (Inr nodes, w)"
  shows "(length nodes \<noteq> 1 \<longrightarrow>
            ErrorDiagnostic ''Client Error''
                ''Unable to import team label, got error: label not found''
              \<in> set (Diagnostics (fst (ImportState quote c req resp rm)))
            \<and> State (fst (ImportState quote c req resp rm)) = State resp)
       \<and> (length nodes = 1 \<longrightarrow>
            State (fst (ImportState quote c req resp rm)) =
              Some ((case State resp of None \<Rightarrow> null_object | Some obj \<Rightarrow> obj)
                      \<lparr>Id' := Known (hd nodes)\<rparr>)
            \<and> Diagnostics (fst (ImportState quote c req resp rm)) = Diagnostics resp)"
  using assms
  by (cases nodes) (simp_all add: ImportState_well_formed AddError_member)

text \<open>
  Instances of C5: no match on the empty server, one match on the server that holds the label.
\<close>

theorem ImportState_matches_witness:
  "State (fst (ImportState go_quote example_client \<lparr>ID = ''bug:ENG''\<rparr> empty_response
                 (remote_of None))) = None
   \<and> ErrorDiagnostic ''Client Error'' ''Unable to import team label, got error: label not found''
       \<in> set (Diagnostics (fst (ImportState go_quote example_client \<lparr>ID = ''bug:ENG''\<rparr>
                                    empty_response (remote_of None))))
   \<and> State (fst (ImportState go_quote example_client \<lparr>ID = ''bug:ENG''\<rparr> empty_response
                   (remote_of (Some example_label))))
       = Some (null_object\<lparr>Id' := Known ''label-1''\<rparr>)"
proof -
  have parts: "Split (ID \<lparr>ID = ''bug:ENG''\<rparr>) (CHR '':'') = [''bug'', ''ENG'']"
    by simp
  have none: "findTeamLabel example_client ''bug'' ''ENG'' (server (remote_of None)) = (Inr [], None)"
    by (simp add: example_client_def remote_of_def)
  have one: "findTeamLabel example_client ''bug'' ''ENG'' (server (remote_of (Some example_label)))
      = (Inr [''label-1''], Some example_label)"
    by (simp add: example_client_def remote_of_def example_label_def)
  show ?thesis
    using ImportState_matches [OF parts _ _ none, of go_quote empty_response]
      ImportState_matches [OF parts _ _ one, of go_quote empty_response]
    by (simp add: empty_response_def)
qed

subsection \<open>C6: a failed remote call is reported once\<close>

text \<open>
  Claim C6: when the remote call of \<open>Create\<close>, \<open>Read\<close>, \<open>Update\<close> or \<open>Delete\<close> returns
  an error, the operation adds one diagnostic, the client error whose detail ends with
  the text of the error; it is the only error diagnostic of the response, and the log
  of remote calls has grown by that one call.
\<close>

theorem remote_failure_reported_once:
  assumes "\<not> HasError (Diagnostics resp)"
  shows "(createLabel c (create_input (create_Plan creq)) (server rm) = (Inl err, w) \<longrightarrow>
            Diagnostics (fst (Create c creq resp rm)) =
              Diagnostics resp @ [ErrorDiagnostic ''Client Error''
                                    (''Unable to create team label, got error: '' @ err)]
            \<and> filter is_ErrorDiagnostic (Diagnostics (fst (Create c creq resp rm))) =
                [ErrorDiagnostic ''Client Error''
                   (''Unable to create team label, got error: '' @ err)]
            \<and> calls (snd (Create c creq resp rm)) =
                calls rm @ [Call_createLabel (create_input (create_Plan creq))])
       \<and> (getLabel c (Value (Id' (read_State rreq))) (server rm) = (Inl err, w) \<longrightarrow>
            Diagnostics (fst (Read c rreq resp rm)) =
              Diagnostics resp @ [ErrorDiagnostic ''Client Error''
                                    (''Unable to read team label, got error: '' @ err)]
            \<and> filter is_ErrorDiagnostic (Diagnostics (fst (Read c rreq resp rm))) =
                [ErrorDiagnostic ''Client Error''
                   (''Unable to read team label, got error: '' @ err)]
            \<and> calls (snd (Read c rreq resp rm)) =
                calls rm @ [Call_getLabel (Value (Id' (read_State rreq)))])
       \<and> (updateLabel c (update_input (update_Plan ureq)) (Value (Id' (update_Plan ureq)))
              (server rm) = (Inl err, w) \<longrightarrow>
            Diagnostics (fst (Update c ureq resp rm)) =
              Diagnostics resp @ [ErrorDiagnostic ''Client Error''
                                    (''Unable to update team label, got error: '' @ err)]
            \<and> filter is_ErrorDiagnostic (Diagnostics (fst (Update c ureq resp rm))) =
                [ErrorDiagnostic ''Client Error''
                   (''Unable to update team label, got error: '' @ err)]
            \<and> calls (snd (Update c ureq resp rm)) =
                calls rm @ [Call_updateLabel (update_input (update_Plan ureq))
                              (Value (Id' (update_Plan ureq)))])
       \<and> (deleteLabel c (Value (Id' (delete_State dreq))) (server rm) = (Inl err, w) \<longrightarrow>
            Diagnostics (fst (Delete c dreq resp rm)) =
              Diagnostics resp @ [ErrorDiagnostic ''Client Error''
                                    (''Unable to delete team label, got error: '' @ err)]
            \<and> filter is_ErrorDiagnostic (Diagnostics (fst (Delete c dreq resp rm))) =
                [ErrorDiagnostic ''Client Error''
                   (''Unable to delete team label, got error: '' @ err)]
            \<and> calls (snd (Delete c dreq resp rm)) =
                calls rm @ [Call_deleteLabel (Value (Id' (delete_State dreq)))])"
  using assms
  by (simp add: Create_eq Read_eq Update_eq Delete_eq AddError_fresh no_errors)

text \<open>
  Instances of C6: the empty server does not find the label; it refuses a label without a name.
\<close>

theorem remote_failure_reported_once_witness:
  "Diagnostics (fst (Read example_client \<lparr>read_State = example_state\<rparr> empty_response
                      (remote_of None)))
     = [ErrorDiagnostic ''Client Error''
          ''Unable to read team label, got error: Entity not found: IssueLabel'']
   \<and> calls (snd (Read example_client \<lparr>read_State = example_state\<rparr> empty_response
                   (remote_of None))) = [Call_getLabel ''label-1'']
   \<and> Diagnostics (fst (Update example_client
                         \<lparr>update_Plan = example_state, update_State = example_state\<rparr>
                         empty_response (remote_of None)))
     = [ErrorDiagnostic ''Client Error''
          ''Unable to update team label, got error: Entity not found: IssueLabel'']
   \<and> Diagnostics (fst (Delete example_client \<lparr>delete_State = example_state\<rparr> empty_response
                         (remote_of None)))
     = [ErrorDiagnostic ''Client Error''
          ''Unable to delete team label, got error: Entity not found: IssueLabel'']
   \<and> calls (snd (Delete example_client \<lparr>delete_State = example_state\<rparr> empty_response
                   (remote_of None))) = [Call_deleteLabel ''label-1'']
   \<and> Diagnostics (fst (Create example_client \<lparr>create_Plan = example_plan\<lparr>Name := Known []\<rparr>\<rparr>
                         empty_response (remote_of None)))
     = [ErrorDiagnostic ''Client Error''
          ''Unable to create team label, got error: name must not be empty'']"
  using remote_failure_reported_once [OF empty_response_ok, of example_client
      "\<lparr>create_Plan = example_plan\<rparr>" "remote_of None" "''Entity not found: IssueLabel''" None
      "\<lparr>read_State = example_state\<rparr>"
      "\<lparr>update_Plan = example_state, update_State = example_state\<rparr>"
      "\<lparr>delete_State = example_state\<rparr>"]
    remote_failure_reported_once [OF empty_response_ok, of example_client
      "\<lparr>create_Plan = example_plan\<lparr>Name := Known []\<rparr>\<rparr>" "remote_of None"
      "''name must not be empty''" None]
    example_create_refused [of None]
  by (simp add: example_not_found remote_of_def example_state_def empty_response_def)

subsection \<open>C7: Update and the identifier\<close>

text \<open>
  Claim C7: \<open>Update\<close> preserves the identifier. The attribute \<^verbatim>\<open>id\<close> is computed only, with
  \<^verbatim>\<open>UseStateForUnknown\<close>, so the plan of every update that the host issues carries the
  identifier of the prior state; \<open>Update\<close> takes the identifier from that plan. A successful
  \<open>Update\<close> then calls the remote update with the identifier of the prior state, and when
  the response echoes that identifier, it is the identifier of the state afterwards.
\<close>

theorem Update_preserves_identifier:
  assumes "\<not> HasError (Diagnostics resp)"
    and "Id' (update_Plan req) = Id' (update_State req)"
    and "updateLabel c (update_input (update_Plan req)) (Value (Id' (update_State req)))
           (server rm) = (Inr l, w)"
    and "label_Id l = Value (Id' (update_State req))"
  shows "calls (snd (Update c req resp rm)) =
           calls rm @ [Call_updateLabel (update_input (update_Plan req))
                         (Value (Id' (update_State req)))]
       \<and> map_option Id' (State (fst (Update c req resp rm))) =
           Some (Known (Value (Id' (update_State req))))"
  using assms by (simp add: Update_eq reconciled_def)

text \<open>
  An instance of C7: update the label that the server holds.
\<close>

theorem Update_preserves_identifier_witness:
  "calls (snd (Update example_client
                 \<lparr>update_Plan = example_state\<lparr>Color := Unknown\<rparr>, update_State = example_state\<rparr>
                 empty_response (remote_of (Some example_label))))
     = [Call_updateLabel (update_input (example_state\<lparr>Color := Unknown\<rparr>)) ''label-1'']
   \<and> map_option Id' (State (fst (Update example_client
                 \<lparr>update_Plan = example_state\<lparr>Color := Unknown\<rparr>, update_State = example_state\<rparr>
                 empty_response (remote_of (Some example_label)))))
     = Some (Id' example_state)"
proof -
  let ?req = "\<lparr>update_Plan = example_state\<lparr>Color := Unknown\<rparr>, update_State = example_state\<rparr>"
  have same: "Id' (update_Plan ?req) = Id' (update_State ?req)"
    by simp
  have call: "updateLabel example_client (update_input (update_Plan ?req))
      (Value (Id' (update_State ?req))) (server (remote_of (Some example_label)))
      = (Inr example_label, Some example_label)"
    using example_updateLabel by (simp add: example_state_def remote_of_def)
  have echo: "label_Id example_label = Value (Id' (update_State ?req))"
    by (simp add: example_label_def example_state_def)
  show ?thesis
    using Update_preserves_identifier [OF empty_response_ok same call echo]
    by (simp add: remote_of_def example_state_def)
qed

subsection \<open>C8: an invalid color is rejected before any remote call\<close>

text \<open>
  Claim C8: the schema attaches the color pattern to the attribute \<^verbatim>\<open>color\<close>, so for a
  configuration whose color is set and does not match the pattern, validation reports an
  error and neither \<open>Create\<close> nor \<open>Update\<close>, run behind the validation, makes a remote call.
\<close>

theorem invalid_color_rejected:
  assumes "Color config = Known col" and "\<not> colorRegex col"
  shows "HasError (ValidateConfig (GetSchema colorRegex uuidRegex) config)
       \<and> HasError (Diagnostics (fst (validated (GetSchema colorRegex uuidRegex) config
                                       (Create c creq) resp rm)))
       \<and> calls (snd (validated (GetSchema colorRegex uuidRegex) config (Create c creq) resp rm))
           = calls rm
       \<and> HasError (Diagnostics (fst (validated (GetSchema colorRegex uuidRegex) config
                                       (Update c ureq) resp rm)))
       \<and> calls (snd (validated (GetSchema colorRegex uuidRegex) config (Update c ureq) resp rm))
           = calls rm"
proof -
  have "ErrorDiagnostic ''Invalid Attribute Value Match'' ''color''
          \<in> set (ValidateConfig (GetSchema colorRegex uuidRegex) config)"
    using assms
    by (simp add: ValidateConfig_def GetSchema_def ValidateAttribute_def attribute_value_def)
  then have "HasError (ValidateConfig (GetSchema colorRegex uuidRegex) config)"
    unfolding HasError_iff by force
  then show ?thesis
    by (simp add: validated_def HasError_Append)
qed

text \<open>
  An instance of C8: the color \<open>''red''\<close> against the pattern \<^verbatim>\<open>#rrggbb\<close>.
\<close>

theorem invalid_color_rejected_witness:
  "\<not> hex_color ''red''
   \<and> calls (snd (validated (GetSchema hex_color any_string) (example_plan\<lparr>Color := Known ''red''\<rparr>)
                   (Create example_client \<lparr>create_Plan = example_plan\<lparr>Color := Known ''red''\<rparr>\<rparr>)
                   empty_response (remote_of None))) = []
   \<and> calls (snd (validated (GetSchema hex_color any_string) (example_plan\<lparr>Color := Known ''red''\<rparr>)
                   (Update example_client
                      \<lparr>update_Plan = example_state\<lparr>Color := Known ''red''\<rparr>,
                       update_State = example_state\<rparr>)
                   empty_response (remote_of None))) = []"
proof -
  have set: "Color (example_plan\<lparr>Color := Known ''red''\<rparr>) = Known ''red''"
    by simp
  have bad: "\<not> hex_color ''red''"
    by (simp add: hex_color_def)
  show ?thesis
    using invalid_color_rejected [of "example_plan\<lparr>Color := Known ''red''\<rparr>" "''red''" hex_color
        any_string example_client
        "\<lparr>create_Plan = example_plan\<lparr>Color := Known ''red''\<rparr>\<rparr>" empty_response "remote_of None"
        "\<lparr>update_Plan = example_state\<lparr>Color := Known ''red''\<rparr>, update_State = example_state\<rparr>"]
      set bad
    by (simp add: remote_of_def)
qed

subsection \<open>C9: a failed remote call leaves the state\<close>

text \<open>
  Claim C9: when the remote call of \<open>Create\<close>, \<open>Read\<close> or \<open>Update\<close> returns an error, the
  state of the response is what it was before the operation.
\<close>

theorem remote_failure_leaves_state:
  "(createLabel c (create_input (create_Plan creq)) (server rm) = (Inl err, w) \<longrightarrow>
      State (fst (Create c creq resp rm)) = State resp)
   \<and> (getLabel c (Value (Id' (read_State rreq))) (server rm) = (Inl err, w) \<longrightarrow>
      State (fst (Read c rreq resp rm)) = State resp)
   \<and> (updateLabel c (update_input (update_Plan ureq)) (Value (Id' (update_Plan ureq)))
         (server rm) = (Inl err, w) \<longrightarrow>
      State (fst (Update c ureq resp rm)) = State resp)"
  by (simp add: Create_eq Read_eq Update_eq)

text \<open>
  Instances of C9: a refused creation, and a read and an update of a label that is not found.
\<close>

theorem remote_failure_leaves_state_witness:
  "State (fst (Create example_client \<lparr>create_Plan = example_plan\<lparr>Name := Known []\<rparr>\<rparr>
                 \<lparr>State = None, Diagnostics = []\<rparr> (remote_of None))) = None
   \<and> State (fst (Read example_client \<lparr>read_State = example_state\<rparr>
                 \<lparr>State = Some example_state, Diagnostics = []\<rparr> (remote_of None)))
       = Some example_state
   \<and> State (fst (Update example_client
                   \<lparr>update_Plan = example_state, update_State = example_state\<rparr>
                   \<lparr>State = Some example_state, Diagnostics = []\<rparr> (remote_of None)))
       = Some example_state"
  using remote_failure_leaves_state [of example_client
      "\<lparr>create_Plan = example_plan\<lparr>Name := Known []\<rparr>\<rparr>" "remote_of None"
      "''name must not be empty''" None "\<lparr>State = None, Diagnostics = []\<rparr>"]
    remote_failure_leaves_state [of example_client
      "\<lparr>create_Plan = example_plan\<rparr>" "remote_of None"
      "''Entity not found: IssueLabel''" None "\<lparr>State = Some example_state, Diagnostics = []\<rparr>"
      "\<lparr>read_State = example_state\<rparr>"
      "\<lparr>update_Plan = example_state, update_State = example_state\<rparr>"]
    example_create_refused [of None]
  by (simp add: example_not_found remote_of_def)

subsection \<open>C10: the two optional fields of the request\<close>

text \<open>
  Claim C10: \<open>Create\<close> and \<open>Update\<close> send the description exactly when the planned
  description is not null, and the color exactly when the planned color is not unknown;
  a planned color that is null is sent as the empty string.
\<close>

theorem optional_fields_sent:
  assumes "\<not> HasError (Diagnostics resp)"
  shows "calls (snd (Create c creq resp rm)) =
           calls rm @ [Call_createLabel
             \<lparr>create_Name = Value (Name (create_Plan creq)),
              create_TeamId = Some (Value (TeamId (create_Plan creq))),
              create_Description =
                (if IsNull (Description (create_Plan creq)) then None
                 else Some (Value (Description (create_Plan creq)))),
              create_Color =
                (if IsUnknown (Color (create_Plan creq)) then None
                 else Some (Value (Color (create_Plan creq))))\<rparr>]
       \<and> calls (snd (Update c ureq resp rm)) =
           calls rm @ [Call_updateLabel
             \<lparr>update_Name = Value (Name (update_Plan ureq)),
              update_Description =
                (if IsNull (Description (update_Plan ureq)) then None
                 else Some (Value (Description (update_Plan ureq)))),
              update_Color =
                (if IsUnknown (Color (update_Plan ureq)) then None
                 else Some (Value (Color (update_Plan ureq))))\<rparr>
             (Value (Id' (update_Plan ureq)))]
       \<and> (Color (create_Plan creq) = Null \<longrightarrow>
            (\<exists>ci. last (calls (snd (Create c creq resp rm))) = Call_createLabel ci
                  \<and> create_Color ci = Some []))
       \<and> (Color (update_Plan ureq) = Null \<longrightarrow>
            (\<exists>ui. last (calls (snd (Update c ureq resp rm))) =
                    Call_updateLabel ui (Value (Id' (update_Plan ureq)))
                  \<and> update_Color ui = Some []))"
proof -
  have "calls (snd (Create c creq resp rm)) =
          calls rm @ [Call_createLabel (create_input (create_Plan creq))]"
    using assms by (simp add: Create_eq split: prod.splits sum.splits)
  moreover have "calls (snd (Update c ureq resp rm)) =
          calls rm @ [Call_updateLabel (update_input (update_Plan ureq))
                        (Value (Id' (update_Plan ureq)))]"
    using assms by (simp add: Update_eq split: prod.splits sum.splits)
  ultimately show ?thesis
    by (simp add: create_input_def update_input_def)
qed

text \<open>
  An instance of C10: a plan with a null color, for both operations.
\<close>

theorem optional_fields_sent_witness:
  "calls (snd (Create example_client
                 \<lparr>create_Plan = example_plan\<lparr>Description := Null, Color := Null\<rparr>\<rparr>
                 empty_response (remote_of None)))
     = [Call_createLabel \<lparr>create_Name = ''bug'',
                          create_TeamId = Some ''0a1b2c3d-0000-4000-8000-000000000001'',
                          create_Description = None, create_Color = Some []\<rparr>]
   \<and> calls (snd (Update example_client
                   \<lparr>update_Plan = example_state\<lparr>Color := Null\<rparr>,
                    update_State = example_state\<rparr>
                   empty_response (remote_of None)))
     = [Call_updateLabel \<lparr>update_Name = ''bug'',
                          update_Description = Some ''Something is broken'',
                          update_Color = Some []\<rparr> ''label-1'']"
  using optional_fields_sent [OF empty_response_ok, of example_client
      "\<lparr>create_Plan = example_plan\<lparr>Description := Null, Color := Null\<rparr>\<rparr>" "remote_of None"
      "\<lparr>update_Plan = example_state\<lparr>Color := Null\<rparr>, update_State = example_state\<rparr>"]
  by (simp add: remote_of_def example_plan_def example_state_def)

end
